theory Spec2Isabelle
  imports Complex_Main
begin

section \<open>Benchmark report of \<^verbatim>\<open>scripts/generate_plots.py\<close>\<close>

text \<open>
  The script loads \<^verbatim>\<open>results/performance_data.csv\<close> into a pandas data frame, draws
  two figures, saves each with \<^verbatim>\<open>plt.savefig\<close>, and then prints a statistical
  summary. The data frame is modelled as the list of its rows, in file order. The
  script declares no column types; the fields below carry the column names of the
  script and the types of the measurement row of the specification (section 3): the
  times are float64, the operation counts int64, the costs numeric (int64 or float64),
  the category a string or a missing value.
\<close>

subsection \<open>Binary64 values\<close>

text \<open>
  A float64 cell is a finite number, a zero of either sign, an infinity or not-a-number.
  \<open>Fin q\<close> is the finite value \<open>q\<close>, with \<open>Fin 0\<close> the positive zero; \<open>NegZero\<close> is
  \<^verbatim>\<open>-0.0\<close>.
\<close>

datatype pyfloat = Fin rat | NegZero | PosInf | NegInf | NaN

definition is_zero :: "pyfloat \<Rightarrow> bool" where
  "is_zero x \<longleftrightarrow> x = Fin 0 \<or> x = NegZero"

definition is_inf :: "pyfloat \<Rightarrow> bool" where
  "is_inf x \<longleftrightarrow> x = PosInf \<or> x = NegInf"

definition rat_of :: "pyfloat \<Rightarrow> rat" where
  "rat_of x = (case x of Fin q \<Rightarrow> q | _ \<Rightarrow> 0)"

definition sign_bit :: "pyfloat \<Rightarrow> bool" where
  "sign_bit x = (case x of Fin q \<Rightarrow> q < 0 | NegZero \<Rightarrow> True | NegInf \<Rightarrow> True | _ \<Rightarrow> False)"

definition signed_zero :: "bool \<Rightarrow> pyfloat" where
  "signed_zero neg = (if neg then NegZero else Fin 0)"

definition signed_inf :: "bool \<Rightarrow> pyfloat" where
  "signed_inf neg = (if neg then NegInf else PosInf)"

text \<open>
  Rounding a rational to binary64, to nearest with ties to even: 53 significant bits,
  a least exponent of \<open>-1074\<close> for the last bit (below it the value is subnormal or
  rounds to a zero of its sign), and an infinity once the rounded value reaches
  \<open>2 ^ 1024\<close>.
\<close>

function bit_length :: "int \<Rightarrow> int" where
  "bit_length n = (if n \<le> 0 then 0 else 1 + bit_length (n div 2))"
  by pat_completeness auto
termination
  by (relation "measure nat") auto

declare bit_length.simps [simp del]

definition pow2 :: "int \<Rightarrow> rat" where
  "pow2 e = (if 0 \<le> e then 2 ^ nat e else 1 / 2 ^ nat (- e))"

text \<open>The exponent of the leading bit of a positive rational.\<close>

definition ilog2 :: "rat \<Rightarrow> int" where
  "ilog2 a = (if 1 \<le> a then bit_length \<lfloor>a\<rfloor> - 1 else - bit_length (\<lceil>1 / a\<rceil> - 1))"

definition round_half_even :: "rat \<Rightarrow> int" where
  "round_half_even q =
     (let f = \<lfloor>q\<rfloor>; r = q - of_int f
      in if r < 1 / 2 then f else if 1 / 2 < r then f + 1
         else if even f then f else f + 1)"

definition round64 :: "rat \<Rightarrow> pyfloat" where
  "round64 q =
     (if q = 0 then Fin 0
      else
        let a = \<bar>q\<bar>;
            e = max (ilog2 a - 52) (- 1074);
            m = round_half_even (a / pow2 e);
            v = of_int m * pow2 e
        in if pow2 1024 \<le> v then signed_inf (q < 0)
           else if m = 0 then signed_zero (q < 0)
           else Fin (if q < 0 then - v else v))"

text \<open>The conversion of an int64 to float64, as numpy casts a column.\<close>

definition int_to_float :: "int \<Rightarrow> pyfloat" where
  "int_to_float i = round64 (of_int i)"

text \<open>
  Comparison, equality, addition and division as IEEE 754 defines them and numpy applies
  them element by element: every comparison with NaN is false, the two zeros are equal,
  and a division by zero raises nothing and gives an infinity or NaN.
\<close>

definition flt :: "pyfloat \<Rightarrow> pyfloat \<Rightarrow> bool" where
  "flt x y =
     (if x = NaN \<or> y = NaN then False
      else if x = PosInf \<or> y = NegInf then False
      else if x = NegInf \<or> y = PosInf then True
      else rat_of x < rat_of y)"

definition feq :: "pyfloat \<Rightarrow> pyfloat \<Rightarrow> bool" where
  "feq x y \<longleftrightarrow> x \<noteq> NaN \<and> y \<noteq> NaN \<and> (x = y \<or> (is_zero x \<and> is_zero y))"

definition fadd :: "pyfloat \<Rightarrow> pyfloat \<Rightarrow> pyfloat" where
  "fadd x y =
     (if x = NaN \<or> y = NaN then NaN
      else if is_inf x then (if is_inf y \<and> x \<noteq> y then NaN else x)
      else if is_inf y then y
      else if is_zero x \<and> is_zero y then signed_zero (x = NegZero \<and> y = NegZero)
      else round64 (rat_of x + rat_of y))"

definition fdiv :: "pyfloat \<Rightarrow> pyfloat \<Rightarrow> pyfloat" where
  "fdiv x y =
     (if x = NaN \<or> y = NaN then NaN
      else if is_inf x then (if is_inf y then NaN else signed_inf (sign_bit x \<noteq> sign_bit y))
      else if is_inf y then signed_zero (sign_bit x \<noteq> sign_bit y)
      else if is_zero y then (if is_zero x then NaN else signed_inf (sign_bit x \<noteq> sign_bit y))
      else if is_zero x then signed_zero (sign_bit x \<noteq> sign_bit y)
      else round64 (rat_of x / rat_of y))"

text \<open>
  \<^verbatim>\<open>Series.mean()\<close> (\<^verbatim>\<open>skipna=True\<close> is the default) counts the entries that are not
  NaN, puts zero in the place of each NaN, has numpy add up the column, and divides the
  sum by the count; with nothing to count, as on an empty series, it returns NaN and
  raises nothing. The order in which numpy's reduction adds the entries, each partial
  sum rounded to binary64, is internal to the library and decides the last bits of the
  sum: the reduction is the parameter \<open>np_sum\<close>.
\<close>

definition mean :: "(pyfloat list \<Rightarrow> pyfloat) \<Rightarrow> pyfloat list \<Rightarrow> pyfloat" where
  "mean np_sum xs =
     (let count = length (filter (\<lambda>x. x \<noteq> NaN) xs);
          the_sum = np_sum (map (\<lambda>x. if x = NaN then Fin 0 else x) xs)
      in if 0 < count then fdiv the_sum (int_to_float (int count)) else NaN)"

text \<open>An int64 column is cast to float64 and averaged in the same way.\<close>

definition mean_int :: "(pyfloat list \<Rightarrow> pyfloat) \<Rightarrow> int list \<Rightarrow> pyfloat" where
  "mean_int np_sum xs = mean np_sum (map int_to_float xs)"

subsection \<open>Numeric cells\<close>

text \<open>
  A cost column is int64 or float64. numpy compares two int64 columns as integers; if
  either column is float64, an int64 column is cast to float64 first.
\<close>

datatype number = Int64 int | Float64 pyfloat

definition to_float64 :: "number \<Rightarrow> pyfloat" where
  "to_float64 a = (case a of Int64 i \<Rightarrow> int_to_float i | Float64 x \<Rightarrow> x)"

definition num_eq :: "number \<Rightarrow> number \<Rightarrow> bool" where
  "num_eq a b =
     (case (a, b) of
        (Int64 i, Int64 j) \<Rightarrow> i = j
      | _ \<Rightarrow> feq (to_float64 a) (to_float64 b))"

subsection \<open>The data frame\<close>

text \<open>A category cell that \<^verbatim>\<open>read_csv\<close> loaded as missing is \<open>None\<close>.\<close>

record row =
  Vertices :: int
  Graph_Type :: "string option"
  Prim_Time_ms :: pyfloat
  Kruskal_Time_ms :: pyfloat
  Prim_Operations :: int
  Kruskal_Operations :: int
  Prim_Cost :: number
  Kruskal_Cost :: number

type_synonym dataframe = "row list"




subsection \<open>Derived series handed to the charts\<close>




text \<open>Line 54: the element-wise quotient of the two time columns.\<close>

definition performance_ratio :: "dataframe \<Rightarrow> pyfloat list" where
  "performance_ratio df = map (\<lambda>r. fdiv (Prim_Time_ms r) (Kruskal_Time_ms r)) df"

text \<open>Line 55: the two series given to \<^verbatim>\<open>scatter\<close>, as x and y.\<close>

definition ratio_scatter :: "dataframe \<Rightarrow> int list \<times> pyfloat list" where
  "ratio_scatter df = (map Vertices df, performance_ratio df)"

subsection \<open>Formatting\<close>

fun str_nat :: "nat \<Rightarrow> string" where
  "str_nat n =
     (if n < 10 then [char_of (48 + n)]
      else str_nat (n div 10) @ [char_of (48 + n mod 10)])"

declare str_nat.simps [simp del]

definition zero_pad :: "nat \<Rightarrow> string \<Rightarrow> string" where
  "zero_pad d s = replicate (d - length s) (CHR ''0'') @ s"

text \<open>
  The format specifications \<^verbatim>\<open>:.2f\<close> and \<^verbatim>\<open>:.0f\<close>: the exact value in fixed point
  with \<open>d\<close> decimals, rounded half to even, the sign kept also when the digits are all
  zero; the special values print as \<^verbatim>\<open>nan\<close>, \<^verbatim>\<open>inf\<close> and \<^verbatim>\<open>-inf\<close>.
\<close>

definition fixed_digits :: "nat \<Rightarrow> rat \<Rightarrow> string" where
  "fixed_digits d a =
     (let n = nat (round_half_even (a * 10 ^ d))
      in str_nat (n div 10 ^ d)
         @ (if d = 0 then '''' else ''.'' @ zero_pad d (str_nat (n mod 10 ^ d))))"

fun format_f :: "nat \<Rightarrow> pyfloat \<Rightarrow> string" where
  "format_f d NaN = ''nan''"
| "format_f d PosInf = ''inf''"
| "format_f d NegInf = ''-inf''"
| "format_f d NegZero = ''-'' @ fixed_digits d 0"
| "format_f d (Fin q) = (if q < 0 then ''-'' else '''') @ fixed_digits d \<bar>q\<bar>"

subsection \<open>The statistics of the summary\<close>

text \<open>\<^verbatim>\<open>len(df[df['Graph_Type'] == label])\<close>, lines 95 to 98.\<close>

definition label_count :: "string \<Rightarrow> dataframe \<Rightarrow> nat" where
  "label_count label df = length (filter (\<lambda>r. Graph_Type r = Some label) df)"

text \<open>Lines 107 and 108.\<close>

definition prim_faster_count :: "dataframe \<Rightarrow> nat" where
  "prim_faster_count df = length (filter (\<lambda>r. flt (Prim_Time_ms r) (Kruskal_Time_ms r)) df)"

definition kruskal_faster_count :: "dataframe \<Rightarrow> nat" where
  "kruskal_faster_count df = length (filter (\<lambda>r. flt (Kruskal_Time_ms r) (Prim_Time_ms r)) df)"

text \<open>Line 113.\<close>

definition cost_matches :: "dataframe \<Rightarrow> nat" where
  "cost_matches df = length (filter (\<lambda>r. num_eq (Prim_Cost r) (Kruskal_Cost r)) df)"

text \<open>The two marks of line 114, U+2713 and U+2717, as their UTF-8 bytes.\<close>

definition check_mark :: string where
  "check_mark = [CHR 0xE2, CHR 0x9C, CHR 0x93]"

definition cross_mark :: string where
  "cross_mark = [CHR 0xE2, CHR 0x9C, CHR 0x97]"

subsection \<open>The printed summary, lines 93 to 114\<close>

text \<open>One string for each \<^verbatim>\<open>print\<close> call, in order; a section is a group of calls.\<close>

definition section_total :: "dataframe \<Rightarrow> string list" where
  "section_total df =
     [''=== Performance Analysis Summary ==='',
      ''Total graphs analyzed: '' @ str_nat (length df)]"

definition section_categories :: "dataframe \<Rightarrow> string list" where
  "section_categories df =
     [''Small graphs (< 30 vertices): '' @ str_nat (label_count ''Small'' df),
      ''Medium graphs (< 300 vertices): '' @ str_nat (label_count ''Medium'' df),
      ''Large graphs (< 1000 vertices): '' @ str_nat (label_count ''Large'' df),
      ''Extra graphs (< 2000 vertices): '' @ str_nat (label_count ''Extra'' df)]"

definition section_averages :: "(pyfloat list \<Rightarrow> pyfloat) \<Rightarrow> dataframe \<Rightarrow> string list" where
  "section_averages np_sum df =
     [CHR 0x0A # ''=== Average Performance Metrics ==='',
      ''Average Prim's execution time: ''
        @ format_f 2 (mean np_sum (map Prim_Time_ms df)) @ '' ms'',
      ''Average Kruskal's execution time: ''
        @ format_f 2 (mean np_sum (map Kruskal_Time_ms df)) @ '' ms'',
      ''Average Prim's operations: ''
        @ format_f 0 (mean_int np_sum (map Prim_Operations df)),
      ''Average Kruskal's operations: ''
        @ format_f 0 (mean_int np_sum (map Kruskal_Operations df))]"

definition section_comparison :: "dataframe \<Rightarrow> string list" where
  "section_comparison df =
     [CHR 0x0A # ''=== Performance Comparison ==='',
      ''Prim's algorithm faster in: '' @ str_nat (prim_faster_count df) @ '' cases'',
      ''Kruskal's algorithm faster in: '' @ str_nat (kruskal_faster_count df) @ '' cases'']"

definition section_cost :: "dataframe \<Rightarrow> string list" where
  "section_cost df =
     [CHR 0x0A # ''=== Cost Verification ==='',
      ''MST costs match in all '' @ str_nat (cost_matches df) @ '' cases: ''
        @ (if cost_matches df = length df then check_mark else cross_mark)]"

definition summary :: "(pyfloat list \<Rightarrow> pyfloat) \<Rightarrow> dataframe \<Rightarrow> string list" where
  "summary np_sum df =
     section_total df @ section_categories df @ section_averages np_sum df
       @ section_comparison df @ section_cost df"

subsection \<open>The run of the script\<close>

text \<open>
  The script has no \<^verbatim>\<open>try\<close>: an exception raised by a library call ends the run at
  that call. The two library calls that touch the file system are parameters here:
  \<open>read_csv\<close> returns the data frame or the exception it raised, and \<open>savefig\<close>
  returns the exception it raised, if any, for the path it was given. The data frame
  is read at line 11, both figures are saved at lines 64 and 89, and only then the
  summary is printed. The drawing calls in between build the figures from the columns
  and the derived series above; what they draw is not modelled. A run ends with what it
  printed and the exception that ended it.
\<close>

record 'e run =
  stdout :: "string list"
  raised :: "'e option"

definition script ::
  "(pyfloat list \<Rightarrow> pyfloat) \<Rightarrow> (string \<Rightarrow> 'e option) \<Rightarrow> dataframe \<Rightarrow> 'e run" where
  "script np_sum savefig df =
     (case savefig ''results/performance_analysis.png'' of
        Some e \<Rightarrow> \<lparr>stdout = [], raised = Some e\<rparr>
      | None \<Rightarrow>
          (case savefig ''results/complexity_analysis.png'' of
             Some e \<Rightarrow> \<lparr>stdout = [], raised = Some e\<rparr>
           | None \<Rightarrow> \<lparr>stdout = summary np_sum df, raised = None\<rparr>))"

definition main ::
  "(pyfloat list \<Rightarrow> pyfloat) \<Rightarrow> (string \<Rightarrow> 'e + dataframe) \<Rightarrow> (string \<Rightarrow> 'e option) \<Rightarrow> 'e run"
  where
  "main np_sum read_csv savefig =
     (case read_csv ''results/performance_data.csv'' of
        Inl e \<Rightarrow> \<lparr>stdout = [], raised = Some e\<rparr>
      | Inr df \<Rightarrow> script np_sum savefig df)"

subsection \<open>The specification's own wording, for comparison\<close>

text \<open>
  The tie rows of the head-to-head invariant: the script never counts them; they are
  the rows whose two times are equal.
\<close>

definition tie_count :: "dataframe \<Rightarrow> nat" where
  "tie_count df = length (filter (\<lambda>r. feq (Prim_Time_ms r) (Kruskal_Time_ms r)) df)"

text \<open>
  The per-row ratio as the specification words it: an explicit marker (\<open>None\<close>) for a
  row whose second time is zero, the quotient otherwise.
\<close>

definition spec_ratio :: "row \<Rightarrow> pyfloat option" where
  "spec_ratio r =
     (if feq (Kruskal_Time_ms r) (Fin 0) then None
      else Some (fdiv (Prim_Time_ms r) (Kruskal_Time_ms r)))"

text \<open>
  Exact equality of two cost cells as loaded: they denote the same number, whatever the
  type of either column.
\<close>

definition same_value :: "number \<Rightarrow> number \<Rightarrow> bool" where
  "same_value a b =
     (case (a, b) of
        (Int64 i, Int64 j) \<Rightarrow> i = j
      | (Int64 i, Float64 y) \<Rightarrow> feq (Fin (of_int i)) y
      | (Float64 x, Int64 j) \<Rightarrow> feq x (Fin (of_int j))
      | (Float64 x, Float64 y) \<Rightarrow> feq x y)"

definition same_dtype :: "number \<Rightarrow> number \<Rightarrow> bool" where
  "same_dtype a b =
     (case (a, b) of
        (Int64 i, Int64 j) \<Rightarrow> True
      | (Float64 x, Float64 y) \<Rightarrow> True
      | _ \<Rightarrow> False)"




subsection \<open>Sample inputs\<close>

text \<open>The two rows of the scenario of the specification (section 8).\<close>

definition scenario :: dataframe where
  "scenario =
     [\<lparr>Vertices = 10, Graph_Type = Some ''Small'', Prim_Time_ms = Fin 1, Kruskal_Time_ms = Fin 2,
       Prim_Operations = 100, Kruskal_Operations = 80,
       Prim_Cost = Int64 50, Kruskal_Cost = Int64 50\<rparr>,
      \<lparr>Vertices = 20, Graph_Type = Some ''Small'', Prim_Time_ms = Fin 3, Kruskal_Time_ms = Fin 1,
       Prim_Operations = 150, Kruskal_Operations = 90,
       Prim_Cost = Int64 70, Kruskal_Cost = Int64 71\<rparr>]"

text \<open>A row whose second time is zero.\<close>

definition zero_time_row :: row where
  "zero_time_row =
     \<lparr>Vertices = 10, Graph_Type = Some ''Small'', Prim_Time_ms = Fin 1, Kruskal_Time_ms = Fin 0,
      Prim_Operations = 100, Kruskal_Operations = 80,
      Prim_Cost = Int64 50, Kruskal_Cost = Int64 50\<rparr>"

text \<open>A row whose second time is the negative zero, \<^verbatim>\<open>-0.0\<close>.\<close>

definition neg_zero_time_row :: row where
  "neg_zero_time_row =
     \<lparr>Vertices = 10, Graph_Type = Some ''Small'', Prim_Time_ms = Fin 1, Kruskal_Time_ms = NegZero,
      Prim_Operations = 100, Kruskal_Operations = 80,
      Prim_Cost = Int64 50, Kruskal_Cost = Int64 50\<rparr>"

text \<open>
  A table whose first cost column is int64 and whose second is float64: the costs
  \<^verbatim>\<open>9007199254740993\<close> and \<^verbatim>\<open>9007199254740992.0\<close>.
\<close>

definition mixed_cost_table :: dataframe where
  "mixed_cost_table =
     [\<lparr>Vertices = 10, Graph_Type = Some ''Small'', Prim_Time_ms = Fin 1, Kruskal_Time_ms = Fin 2,
       Prim_Operations = 100, Kruskal_Operations = 80,
       Prim_Cost = Int64 9007199254740993, Kruskal_Cost = Float64 (Fin 9007199254740992)\<rparr>]"


text \<open>
  A reduction for the sample runs: the entries added one after the other, each sum
  rounded. On the sample tables every sum is exact, so the order of the additions does
  not show.
\<close>

definition sum_in_order :: "pyfloat list \<Rightarrow> pyfloat" where
  "sum_in_order xs = (case xs of [] \<Rightarrow> Fin 0 | x # ys \<Rightarrow> foldl fadd x ys)"

text \<open>Renderers for the sample runs; an exception is carried as its name.\<close>

definition save_ok :: "string \<Rightarrow> string option" where
  "save_ok path = None"

definition second_save_fails :: "string \<Rightarrow> string option" where
  "second_save_fails path =
     (if path = ''results/complexity_analysis.png'' then Some ''RenderError'' else None)"

section \<open>Properties\<close>

subsection \<open>Rounding at the values of the sample inputs\<close>

lemma round64_eval:
  assumes "q \<noteq> 0"
    and "max (ilog2 \<bar>q\<bar> - 52) (- 1074) = e"
    and "round_half_even (\<bar>q\<bar> / pow2 e) = m"
    and "m \<noteq> 0"
    and "\<not> pow2 1024 \<le> of_int m * pow2 e"
  shows "round64 q = Fin (if q < 0 then - (of_int m * pow2 e) else of_int m * pow2 e)"
  using assms(1,4,5) unfolding round64_def Let_def assms(2) assms(3) by simp




lemma round64_half: "round64 (1 / 2) = Fin (1 / 2)"
  using round64_eval [of "1 / 2" "- 53" "2 ^ 52"]
  by (simp add: ilog2_def bit_length.simps round_half_even_def pow2_def Let_def)

lemma round64_big: "round64 9007199254740993 = Fin 9007199254740992"
proof -
  have f: "\<lfloor>9007199254740993 / 2 :: rat\<rfloor> = 4503599627370496"
    by (rule floor_unique) simp_all
  show ?thesis
    using round64_eval [of 9007199254740993 1 "2 ^ 52"]
    by (simp add: ilog2_def bit_length.simps round_half_even_def pow2_def Let_def f)
qed


subsection \<open>Comparison and equality of floats\<close>

lemma str_nat_digits:
  "str_nat 0 = ''0''" "str_nat 1 = ''1''" "str_nat (Suc 0) = ''1''" "str_nat 2 = ''2''"
  by code_simp+

lemma flt_feq_cases:
  assumes "x \<noteq> NaN" and "y \<noteq> NaN"
  shows "(flt x y \<and> \<not> flt y x \<and> \<not> feq x y) \<or> (\<not> flt x y \<and> flt y x \<and> \<not> feq x y)
         \<or> (\<not> flt x y \<and> \<not> flt y x \<and> feq x y)"
  using assms by (cases x; cases y) (auto simp: flt_def feq_def is_zero_def rat_of_def)

lemma feq_not_flt: "feq x y \<Longrightarrow> \<not> flt x y \<and> \<not> flt y x"
  by (cases x; cases y) (auto simp: flt_def feq_def is_zero_def rat_of_def)

lemma length_filter_eq_length: "length (filter P xs) = length xs \<longleftrightarrow> (\<forall>x\<in>set xs. P x)"
proof (induction xs)
  case Nil
  show ?case by simp
next
  case (Cons x xs)
  have "length (filter P xs) \<le> length xs" by simp
  then have "length (filter P xs) \<noteq> Suc (length xs)" by arith
  with Cons show ?case by auto
qed

subsection \<open>The cost verification line\<close>

lemma last_summary: "last (summary np_sum df) = last (section_cost df)"
  by (simp add: summary_def section_cost_def)

lemma marks_differ: "check_mark \<noteq> cross_mark"
  by (simp add: check_mark_def cross_mark_def)

lemma num_eq_same_dtype: "same_dtype a b \<Longrightarrow> num_eq a b = same_value a b"
  by (cases a; cases b) (simp_all add: same_dtype_def num_eq_def same_value_def to_float64_def)

lemma num_eq_mixed_dtype:
  "\<not> same_dtype a b \<Longrightarrow> num_eq a b = feq (to_float64 a) (to_float64 b)"
  by (cases a; cases b) (simp_all add: same_dtype_def num_eq_def)

text \<open>
  Claim C1, as stated, fails: with an int64 and a float64 cost column, the row whose
  loaded costs are \<^verbatim>\<open>9007199254740993\<close> and \<^verbatim>\<open>9007199254740992.0\<close> is counted as a
  match and the check mark is printed, although the two loaded values differ.
\<close>

theorem cost_check_counterexample:
  "cost_matches mixed_cost_table = 1
   \<and> length mixed_cost_table = 1
   \<and> length (filter (\<lambda>r. same_value (Prim_Cost r) (Kruskal_Cost r)) mixed_cost_table) = 0
   \<and> last (summary sum_in_order mixed_cost_table)
       = ''MST costs match in all 1 cases: '' @ check_mark"
proof -
  have c: "cost_matches mixed_cost_table = 1"
    by (simp add: cost_matches_def mixed_cost_table_def num_eq_def to_float64_def
        int_to_float_def round64_big feq_def)
  have l: "length mixed_cost_table = 1" by (simp add: mixed_cost_table_def)
  have s: "length (filter (\<lambda>r. same_value (Prim_Cost r) (Kruskal_Cost r)) mixed_cost_table) = 0"
    by (simp add: mixed_cost_table_def same_value_def feq_def is_zero_def)
  have p: "last (summary sum_in_order mixed_cost_table)
       = ''MST costs match in all 1 cases: '' @ check_mark"
    unfolding last_summary by (simp add: section_cost_def c l str_nat_digits)
  from c l s p show ?thesis by blast
qed

text \<open>
  Claim C1, amended. The count is that of numpy's \<^verbatim>\<open>==\<close>, without tolerance. It
  never exceeds the number of rows, and the last printed line ends with the check mark
  if and only if the count equals the number of rows, with the cross otherwise. When
  the two cost columns have the same type the rows counted are those whose loaded
  costs are the same number; when one column is int64 and the other float64 they are
  those whose costs are equal floats after the cast of the integer to float64.
\<close>

theorem cost_check_dtypes:
  "cost_matches df \<le> length df
   \<and> (last (summary np_sum df) =
        ''MST costs match in all '' @ str_nat (cost_matches df) @ '' cases: '' @ check_mark
      \<longleftrightarrow> cost_matches df = length df)
   \<and> (last (summary np_sum df) =
        ''MST costs match in all '' @ str_nat (cost_matches df) @ '' cases: '' @ cross_mark
      \<longleftrightarrow> cost_matches df \<noteq> length df)
   \<and> ((\<forall>r\<in>set df. same_dtype (Prim_Cost r) (Kruskal_Cost r)) \<longrightarrow>
        cost_matches df = length (filter (\<lambda>r. same_value (Prim_Cost r) (Kruskal_Cost r)) df))
   \<and> ((\<forall>r\<in>set df. \<not> same_dtype (Prim_Cost r) (Kruskal_Cost r)) \<longrightarrow>
        cost_matches df =
          length (filter (\<lambda>r. feq (to_float64 (Prim_Cost r)) (to_float64 (Kruskal_Cost r))) df))"
proof -
  have b: "cost_matches df \<le> length df"
    by (simp add: cost_matches_def)
  have l: "last (summary np_sum df) = ''MST costs match in all '' @ str_nat (cost_matches df) @ '' cases: ''
        @ (if cost_matches df = length df then check_mark else cross_mark)"
    unfolding last_summary by (simp add: section_cost_def)
  have c: "(last (summary np_sum df) =
        ''MST costs match in all '' @ str_nat (cost_matches df) @ '' cases: '' @ check_mark)
      = (cost_matches df = length df)"
    unfolding l using marks_differ by (cases "cost_matches df = length df") auto
  have d: "(last (summary np_sum df) =
        ''MST costs match in all '' @ str_nat (cost_matches df) @ '' cases: '' @ cross_mark)
      = (cost_matches df \<noteq> length df)"
    unfolding l using marks_differ by (cases "cost_matches df = length df") auto
  have s: "cost_matches df = length (filter (\<lambda>r. same_value (Prim_Cost r) (Kruskal_Cost r)) df)"
    if "\<forall>r\<in>set df. same_dtype (Prim_Cost r) (Kruskal_Cost r)"
  proof -
    have "filter (\<lambda>r. num_eq (Prim_Cost r) (Kruskal_Cost r)) df
          = filter (\<lambda>r. same_value (Prim_Cost r) (Kruskal_Cost r)) df"
      using that by (intro filter_cong refl) (simp add: num_eq_same_dtype)
    then show ?thesis by (simp add: cost_matches_def)
  qed
  have m: "cost_matches df =
          length (filter (\<lambda>r. feq (to_float64 (Prim_Cost r)) (to_float64 (Kruskal_Cost r))) df)"
    if "\<forall>r\<in>set df. \<not> same_dtype (Prim_Cost r) (Kruskal_Cost r)"
  proof -
    have "filter (\<lambda>r. num_eq (Prim_Cost r) (Kruskal_Cost r)) df
          = filter (\<lambda>r. feq (to_float64 (Prim_Cost r)) (to_float64 (Kruskal_Cost r))) df"
      using that by (intro filter_cong refl) (simp add: num_eq_mixed_dtype)
    then show ?thesis by (simp add: cost_matches_def)
  qed
  from b c d s m show ?thesis by blast
qed

theorem cost_check_dtypes_witness:
  "list_all (\<lambda>r. same_dtype (Prim_Cost r) (Kruskal_Cost r)) scenario
   \<and> cost_matches scenario = 1
   \<and> length (filter (\<lambda>r. same_value (Prim_Cost r) (Kruskal_Cost r)) scenario) = 1
   \<and> length scenario = 2
   \<and> last (summary sum_in_order scenario)
       = ''MST costs match in all 1 cases: '' @ cross_mark
   \<and> list_all (\<lambda>r. \<not> same_dtype (Prim_Cost r) (Kruskal_Cost r)) mixed_cost_table
   \<and> cost_matches mixed_cost_table = 1
   \<and> length (filter (\<lambda>r. feq (to_float64 (Prim_Cost r)) (to_float64 (Kruskal_Cost r)))
         mixed_cost_table) = 1"
proof -
  have h: "\<forall>r\<in>set scenario. same_dtype (Prim_Cost r) (Kruskal_Cost r)"
    by (simp add: scenario_def same_dtype_def)
  have v: "length (filter (\<lambda>r. same_value (Prim_Cost r) (Kruskal_Cost r)) scenario) = 1"
    by (simp add: scenario_def same_value_def)
  have n: "length scenario = 2" by (simp add: scenario_def)
  have g: "\<forall>r\<in>set mixed_cost_table. \<not> same_dtype (Prim_Cost r) (Kruskal_Cost r)"
    by (simp add: mixed_cost_table_def same_dtype_def)
  have f: "length (filter (\<lambda>r. feq (to_float64 (Prim_Cost r)) (to_float64 (Kruskal_Cost r)))
         mixed_cost_table) = 1"
    by (simp add: mixed_cost_table_def to_float64_def int_to_float_def round64_big feq_def)
  from cost_check_dtypes [of scenario sum_in_order] h v
  have a: "cost_matches scenario = 1" by simp
  from a n have ne: "cost_matches scenario \<noteq> length scenario" by simp
  from cost_check_dtypes [of scenario sum_in_order] ne
  have "last (summary sum_in_order scenario) =
        ''MST costs match in all '' @ str_nat (cost_matches scenario) @ '' cases: '' @ cross_mark"
    by blast
  then have p: "last (summary sum_in_order scenario)
       = ''MST costs match in all 1 cases: '' @ cross_mark"
    by (simp add: a str_nat_digits)
  from cost_check_dtypes [of mixed_cost_table sum_in_order] g f
  have b: "cost_matches mixed_cost_table = 1" by simp
  from h v n g f a p b show ?thesis unfolding list_all_iff by blast
qed

subsection \<open>Head-to-head counts\<close>

text \<open>
  Claim C2. On a table whose times are numbers (no NaN), the rows where Prim is
  strictly faster, the rows where Kruskal is strictly faster and the tie rows add up to
  the number of rows; a tie row is in neither head-to-head count.
\<close>

theorem head_to_head_partition:
  assumes "\<forall>r\<in>set df. Prim_Time_ms r \<noteq> NaN \<and> Kruskal_Time_ms r \<noteq> NaN"
  shows "prim_faster_count df + kruskal_faster_count df + tie_count df = length df
         \<and> prim_faster_count df =
             length (filter (\<lambda>r. flt (Prim_Time_ms r) (Kruskal_Time_ms r)
                                  \<and> \<not> feq (Prim_Time_ms r) (Kruskal_Time_ms r)) df)
         \<and> kruskal_faster_count df =
             length (filter (\<lambda>r. flt (Kruskal_Time_ms r) (Prim_Time_ms r)
                                  \<and> \<not> feq (Prim_Time_ms r) (Kruskal_Time_ms r)) df)"
proof -
  have sum: "prim_faster_count df + kruskal_faster_count df + tie_count df = length df"
    using assms
  proof (induction df)
    case Nil
    show ?case by (simp add: prim_faster_count_def kruskal_faster_count_def tie_count_def)
  next
    case (Cons r df)
    from Cons.prems have "Prim_Time_ms r \<noteq> NaN" and "Kruskal_Time_ms r \<noteq> NaN" by simp_all
    from flt_feq_cases[OF this] Cons show ?case
      by (auto simp: prim_faster_count_def kruskal_faster_count_def tie_count_def)
  qed
  have p: "\<And>r. (flt (Prim_Time_ms r) (Kruskal_Time_ms r) \<and> \<not> feq (Prim_Time_ms r) (Kruskal_Time_ms r))
              = flt (Prim_Time_ms r) (Kruskal_Time_ms r)"
    using feq_not_flt by blast
  have k: "\<And>r. (flt (Kruskal_Time_ms r) (Prim_Time_ms r) \<and> \<not> feq (Prim_Time_ms r) (Kruskal_Time_ms r))
              = flt (Kruskal_Time_ms r) (Prim_Time_ms r)"
    using feq_not_flt by blast
  have pc: "prim_faster_count df =
             length (filter (\<lambda>r. flt (Prim_Time_ms r) (Kruskal_Time_ms r)
                                  \<and> \<not> feq (Prim_Time_ms r) (Kruskal_Time_ms r)) df)"
    by (simp add: p prim_faster_count_def)
  have kc: "kruskal_faster_count df =
             length (filter (\<lambda>r. flt (Kruskal_Time_ms r) (Prim_Time_ms r)
                                  \<and> \<not> feq (Prim_Time_ms r) (Kruskal_Time_ms r)) df)"
    by (simp add: k kruskal_faster_count_def)
  from sum pc kc show ?thesis by blast
qed

theorem head_to_head_partition_witness:
  "list_all (\<lambda>r. Prim_Time_ms r \<noteq> NaN \<and> Kruskal_Time_ms r \<noteq> NaN) scenario
   \<and> prim_faster_count scenario = 1 \<and> kruskal_faster_count scenario = 1
   \<and> tie_count scenario = 0
   \<and> prim_faster_count scenario + kruskal_faster_count scenario + tie_count scenario
       = length scenario"
proof -
  have h: "\<forall>r\<in>set scenario. Prim_Time_ms r \<noteq> NaN \<and> Kruskal_Time_ms r \<noteq> NaN"
    by (simp add: scenario_def)
  have c: "prim_faster_count scenario = 1 \<and> kruskal_faster_count scenario = 1
           \<and> tie_count scenario = 0"
    by (simp add: scenario_def prim_faster_count_def kruskal_faster_count_def tie_count_def
        flt_def feq_def rat_of_def is_zero_def)
  from h c head_to_head_partition [OF h] show ?thesis by (simp add: list_all_iff)
qed

subsection \<open>The performance ratio\<close>

text \<open>
  Claim C3, as stated, fails: for a row whose Kruskal time is zero the script computes
  the IEEE quotient, here plus infinity, where the specification wants a marker.
\<close>

theorem ratio_marker_counterexample:
  "performance_ratio [zero_time_row] = [PosInf]
   \<and> map spec_ratio [zero_time_row] = [None]
   \<and> map Some (performance_ratio [zero_time_row]) \<noteq> map spec_ratio [zero_time_row]"
  by (simp add: performance_ratio_def spec_ratio_def zero_time_row_def fdiv_def feq_def
      is_zero_def is_inf_def sign_bit_def signed_inf_def)

lemma fdiv_zero_zero: "is_zero x \<Longrightarrow> is_zero y \<Longrightarrow> fdiv x y = NaN"
  by (auto simp: fdiv_def is_zero_def is_inf_def)

lemma fdiv_by_zero:
  "is_zero y \<Longrightarrow> \<not> is_zero x \<Longrightarrow> x \<noteq> NaN \<Longrightarrow> fdiv x y = signed_inf (sign_bit x \<noteq> sign_bit y)"
  by (auto simp: fdiv_def is_zero_def is_inf_def)

lemma fdiv_finite:
  "a \<noteq> 0 \<Longrightarrow> b \<noteq> 0 \<Longrightarrow> fdiv (Fin a) (Fin b) = round64 (a / b)"
  by (simp add: fdiv_def is_zero_def is_inf_def rat_of_def)

text \<open>
  Claim C3, amended. The ratio series has one entry for each row, in row order: the
  binary64 quotient of the row's two times, and it is the y series given to the scatter
  plot as it is. For two finite nonzero times the entry is their quotient rounded to
  binary64. Where the Kruskal time is a zero of either sign no marker is produced: the
  entry is NaN when the Prim time is a zero too, and otherwise, the Prim time not being
  NaN, the infinity whose sign is negative exactly when the signs of the Prim time and
  of the zero differ.
\<close>

theorem performance_ratio_rows:
  "length (performance_ratio df) = length df
   \<and> snd (ratio_scatter df) = performance_ratio df
   \<and> (\<forall>i<length df.
        performance_ratio df ! i = fdiv (Prim_Time_ms (df ! i)) (Kruskal_Time_ms (df ! i))
        \<and> (\<forall>a b. Prim_Time_ms (df ! i) = Fin a \<and> Kruskal_Time_ms (df ! i) = Fin b
                  \<and> a \<noteq> 0 \<and> b \<noteq> 0 \<longrightarrow>
             performance_ratio df ! i = round64 (a / b))
        \<and> (is_zero (Kruskal_Time_ms (df ! i)) \<and> is_zero (Prim_Time_ms (df ! i)) \<longrightarrow>
             performance_ratio df ! i = NaN)
        \<and> (is_zero (Kruskal_Time_ms (df ! i)) \<and> \<not> is_zero (Prim_Time_ms (df ! i))
             \<and> Prim_Time_ms (df ! i) \<noteq> NaN \<longrightarrow>
             performance_ratio df ! i =
               signed_inf (sign_bit (Prim_Time_ms (df ! i)) \<noteq> sign_bit (Kruskal_Time_ms (df ! i)))))"
  by (simp add: performance_ratio_def ratio_scatter_def fdiv_zero_zero fdiv_by_zero fdiv_finite)

theorem performance_ratio_rows_witness:
  "(0::nat) < length (scenario @ [zero_time_row, neg_zero_time_row])
   \<and> (2::nat) < length (scenario @ [zero_time_row, neg_zero_time_row])
   \<and> (3::nat) < length (scenario @ [zero_time_row, neg_zero_time_row])
   \<and> Prim_Time_ms ((scenario @ [zero_time_row, neg_zero_time_row]) ! 0) = Fin 1
   \<and> Kruskal_Time_ms ((scenario @ [zero_time_row, neg_zero_time_row]) ! 0) = Fin 2
   \<and> performance_ratio (scenario @ [zero_time_row, neg_zero_time_row]) ! 0 = Fin (1 / 2)
   \<and> Prim_Time_ms ((scenario @ [zero_time_row, neg_zero_time_row]) ! 2) = Fin 1
   \<and> Kruskal_Time_ms ((scenario @ [zero_time_row, neg_zero_time_row]) ! 2) = Fin 0
   \<and> performance_ratio (scenario @ [zero_time_row, neg_zero_time_row]) ! 2 = PosInf
   \<and> Prim_Time_ms ((scenario @ [zero_time_row, neg_zero_time_row]) ! 3) = Fin 1
   \<and> Kruskal_Time_ms ((scenario @ [zero_time_row, neg_zero_time_row]) ! 3) = NegZero
   \<and> performance_ratio (scenario @ [zero_time_row, neg_zero_time_row]) ! 3 = NegInf"
proof -
  let ?t = "scenario @ [zero_time_row, neg_zero_time_row]"
  have l: "(0::nat) < length ?t" "(2::nat) < length ?t" "(3::nat) < length ?t"
    by (simp_all add: scenario_def)
  have r0: "Prim_Time_ms (?t ! 0) = Fin 1" "Kruskal_Time_ms (?t ! 0) = Fin 2"
    by (simp_all add: scenario_def)
  have r2: "Prim_Time_ms (?t ! 2) = Fin 1" "Kruskal_Time_ms (?t ! 2) = Fin 0"
    by (simp_all add: scenario_def zero_time_row_def nth_append)
  have r3: "Prim_Time_ms (?t ! 3) = Fin 1" "Kruskal_Time_ms (?t ! 3) = NegZero"
    by (simp_all add: scenario_def neg_zero_time_row_def nth_append)
  have z2: "is_zero (Kruskal_Time_ms (?t ! 2))" "\<not> is_zero (Prim_Time_ms (?t ! 2))"
    "Prim_Time_ms (?t ! 2) \<noteq> NaN"
    by (simp_all add: r2 is_zero_def)
  have z3: "is_zero (Kruskal_Time_ms (?t ! 3))" "\<not> is_zero (Prim_Time_ms (?t ! 3))"
    "Prim_Time_ms (?t ! 3) \<noteq> NaN"
    by (simp_all add: r3 is_zero_def)
  note rows = performance_ratio_rows [of ?t, THEN conjunct2, THEN conjunct2, rule_format]
  have nz: "(1::rat) \<noteq> 0" "(2::rat) \<noteq> 0" by simp_all
  from rows [OF l(1)] r0 nz have "performance_ratio ?t ! 0 = round64 (1 / 2)" by blast
  then have a: "performance_ratio ?t ! 0 = Fin (1 / 2)" by (simp only: round64_half)
  from rows [OF l(2)] z2
  have "performance_ratio ?t ! 2 =
      signed_inf (sign_bit (Prim_Time_ms (?t ! 2)) \<noteq> sign_bit (Kruskal_Time_ms (?t ! 2)))"
    by blast
  then have b: "performance_ratio ?t ! 2 = PosInf"
    by (simp add: r2 sign_bit_def signed_inf_def)
  from rows [OF l(3)] z3
  have "performance_ratio ?t ! 3 =
      signed_inf (sign_bit (Prim_Time_ms (?t ! 3)) \<noteq> sign_bit (Kruskal_Time_ms (?t ! 3)))"
    by blast
  then have c: "performance_ratio ?t ! 3 = NegInf"
    by (simp add: r3 sign_bit_def signed_inf_def)
  from l r0 r2 r3 a b c show ?thesis by blast
qed

subsection \<open>The category counts\<close>

text \<open>
  Claim C4. The four lines after the total carry, in order, the number of rows whose
  label is exactly Small, Medium, Large and Extra; replacing the vertex numbers of the
  rows by anything at all leaves the printed summary as it is.
\<close>

theorem category_counts_by_label:
  "take 4 (drop 2 (summary np_sum df)) =
     [''Small graphs (< 30 vertices): ''
        @ str_nat (length (filter (\<lambda>r. Graph_Type r = Some ''Small'') df)),
      ''Medium graphs (< 300 vertices): ''
        @ str_nat (length (filter (\<lambda>r. Graph_Type r = Some ''Medium'') df)),
      ''Large graphs (< 1000 vertices): ''
        @ str_nat (length (filter (\<lambda>r. Graph_Type r = Some ''Large'') df)),
      ''Extra graphs (< 2000 vertices): ''
        @ str_nat (length (filter (\<lambda>r. Graph_Type r = Some ''Extra'') df))]
   \<and> summary np_sum (map (\<lambda>r. r\<lparr>Vertices := f r\<rparr>) df) = summary np_sum df"
proof -
  have lines: "take 4 (drop 2 (summary np_sum df)) =
     [''Small graphs (< 30 vertices): ''
        @ str_nat (length (filter (\<lambda>r. Graph_Type r = Some ''Small'') df)),
      ''Medium graphs (< 300 vertices): ''
        @ str_nat (length (filter (\<lambda>r. Graph_Type r = Some ''Medium'') df)),
      ''Large graphs (< 1000 vertices): ''
        @ str_nat (length (filter (\<lambda>r. Graph_Type r = Some ''Large'') df)),
      ''Extra graphs (< 2000 vertices): ''
        @ str_nat (length (filter (\<lambda>r. Graph_Type r = Some ''Extra'') df))]"
    by (simp add: summary_def section_total_def section_categories_def label_count_def)
  have unused: "summary np_sum (map (\<lambda>r. r\<lparr>Vertices := f r\<rparr>) df) = summary np_sum df"
    by (simp add: summary_def section_total_def section_categories_def section_averages_def
        section_comparison_def section_cost_def label_count_def prim_faster_count_def
        kruskal_faster_count_def cost_matches_def filter_map comp_def)
  from lines unused show ?thesis by blast
qed

theorem category_counts_by_label_witness:
  "take 4 (drop 2 (summary sum_in_order scenario)) =
     [''Small graphs (< 30 vertices): 2'', ''Medium graphs (< 300 vertices): 0'',
      ''Large graphs (< 1000 vertices): 0'', ''Extra graphs (< 2000 vertices): 0'']
   \<and> summary sum_in_order (map (\<lambda>r. r\<lparr>Vertices := 5000\<rparr>) scenario)
       = summary sum_in_order scenario"
proof -
  have c: "length (filter (\<lambda>r. Graph_Type r = Some ''Small'') scenario) = 2"
    "length (filter (\<lambda>r. Graph_Type r = Some ''Medium'') scenario) = 0"
    "length (filter (\<lambda>r. Graph_Type r = Some ''Large'') scenario) = 0"
    "length (filter (\<lambda>r. Graph_Type r = Some ''Extra'') scenario) = 0"
    by (simp_all add: scenario_def)
  show ?thesis
    using category_counts_by_label [of sum_in_order scenario "\<lambda>r. 5000"]
    by (simp add: str_nat_digits c)
qed

lemma bucket_sum:
  "label_count ''Small'' df + label_count ''Medium'' df + label_count ''Large'' df
     + label_count ''Extra'' df
   = length (filter (\<lambda>r. Graph_Type r \<in>
       {Some ''Small'', Some ''Medium'', Some ''Large'', Some ''Extra''}) df)"
  by (induction df) (simp_all add: label_count_def)

text \<open>
  Claim C10. The four printed counts add up to the number of rows that carry one of
  the four labels, so a row with any other label is in no count; the sum is at most the
  number of rows and equals it if and only if every row carries one of the four labels.
\<close>

theorem label_buckets_bound:
  "label_count ''Small'' df + label_count ''Medium'' df + label_count ''Large'' df
     + label_count ''Extra'' df
   = length (filter (\<lambda>r. Graph_Type r \<in>
       {Some ''Small'', Some ''Medium'', Some ''Large'', Some ''Extra''}) df)
   \<and> label_count ''Small'' df + label_count ''Medium'' df + label_count ''Large'' df
       + label_count ''Extra'' df \<le> length df
   \<and> (label_count ''Small'' df + label_count ''Medium'' df + label_count ''Large'' df
        + label_count ''Extra'' df = length df
      \<longleftrightarrow> (\<forall>r\<in>set df. Graph_Type r \<in>
            {Some ''Small'', Some ''Medium'', Some ''Large'', Some ''Extra''}))"
  unfolding bucket_sum by (simp add: length_filter_eq_length)

theorem label_buckets_bound_witness:
  "list_all (\<lambda>r. Graph_Type r \<in> {Some ''Small'', Some ''Medium'', Some ''Large'', Some ''Extra''})
     scenario
   \<and> label_count ''Small'' scenario + label_count ''Medium'' scenario
       + label_count ''Large'' scenario + label_count ''Extra'' scenario
     = length scenario
   \<and> length scenario = 2"
proof -
  have h: "\<forall>r\<in>set scenario. Graph_Type r \<in>
      {Some ''Small'', Some ''Medium'', Some ''Large'', Some ''Extra''}"
    by (simp add: scenario_def)
  have l: "length scenario = 2" by (simp add: scenario_def)
  from h l label_buckets_bound [of scenario] show ?thesis
    unfolding list_all_iff by blast
qed

subsection \<open>The empty table\<close>

text \<open>
  Claim C6. On a table without rows each of the four global averages is a defined
  value, NaN, computed without an exception, and the four lines of the averages section
  print it as \<^verbatim>\<open>nan\<close>.
\<close>

theorem empty_table_averages:
  "mean np_sum (map Prim_Time_ms ([]::dataframe)) = NaN
   \<and> mean np_sum (map Kruskal_Time_ms ([]::dataframe)) = NaN
   \<and> mean_int np_sum (map Prim_Operations ([]::dataframe)) = NaN
   \<and> mean_int np_sum (map Kruskal_Operations ([]::dataframe)) = NaN
   \<and> section_averages np_sum [] =
       [CHR 0x0A # ''=== Average Performance Metrics ==='',
        ''Average Prim's execution time: nan ms'',
        ''Average Kruskal's execution time: nan ms'',
        ''Average Prim's operations: nan'',
        ''Average Kruskal's operations: nan'']"
  by (simp add: mean_def mean_int_def section_averages_def)

subsection \<open>Rendering failures and the report\<close>

text \<open>
  Claim C8, as stated, fails: when the second figure cannot be written, the run ends
  with that exception and has printed nothing, although the summary of the table is not
  empty.
\<close>

theorem render_failure_counterexample:
  "script sum_in_order second_save_fails scenario
     = \<lparr>stdout = [], raised = Some ''RenderError''\<rparr>
   \<and> stdout (script sum_in_order second_save_fails scenario) \<noteq> summary sum_in_order scenario"
  by (simp add: script_def second_save_fails_def summary_def section_total_def)

text \<open>
  Claim C8, amended. An exception of either \<^verbatim>\<open>savefig\<close> call reaches the caller and
  ends the run there; both calls come before the first \<^verbatim>\<open>print\<close>, so that run prints
  no line of the report. When both figures are written the five sections are printed,
  and they are computed from the table alone.
\<close>

theorem render_failure_ends_run:
  "(savefig ''results/performance_analysis.png'' = Some e \<longrightarrow>
      script np_sum savefig df = \<lparr>stdout = [], raised = Some e\<rparr>)
   \<and> (savefig ''results/performance_analysis.png'' = None
        \<and> savefig ''results/complexity_analysis.png'' = Some e \<longrightarrow>
      script np_sum savefig df = \<lparr>stdout = [], raised = Some e\<rparr>)
   \<and> (savefig ''results/performance_analysis.png'' = None
        \<and> savefig ''results/complexity_analysis.png'' = None \<longrightarrow>
      script np_sum savefig df = \<lparr>stdout = summary np_sum df, raised = None\<rparr>
      \<and> summary np_sum df = section_total df @ section_categories df @ section_averages np_sum df
           @ section_comparison df @ section_cost df)"
  by (simp add: script_def summary_def)

theorem render_failure_ends_run_witness:
  "second_save_fails ''results/performance_analysis.png'' = None
   \<and> second_save_fails ''results/complexity_analysis.png'' = Some ''RenderError''
   \<and> script sum_in_order second_save_fails scenario
       = \<lparr>stdout = [], raised = Some ''RenderError''\<rparr>
   \<and> save_ok ''results/performance_analysis.png'' = None
   \<and> save_ok ''results/complexity_analysis.png'' = None
   \<and> script sum_in_order save_ok scenario
       = \<lparr>stdout = summary sum_in_order scenario, raised = None\<rparr>"
  using render_failure_ends_run [of second_save_fails "''RenderError''" sum_in_order scenario]
    render_failure_ends_run [of save_ok "''RenderError''" sum_in_order scenario]
  by (simp add: second_save_fails_def save_ok_def)

subsection \<open>Categories and their mean times\<close>
























end
